theory Spec2Isabelle
  imports Complex_Main
begin

section \<open>The token of a document (syfertext/token.py)\<close>

text \<open>
  The class \<open>Token\<close> is embedded as a record, its methods as functions on that record.
  A Python exception is a value \<open>Inl e\<close> of the result. The collaborators of the class
  that live in other modules are either parameters of the functions (the string store,
  the constructor of syft's \<open>AbstractObject\<close>, the tensor backend) or small definitions
  written from the specification and marked as such (the vector table, the pointer
  record).
\<close>

subsection \<open>Values and errors\<close>

type_synonym worker = string

text \<open>An object identifier is \<open>str or int\<close> in the signatures of the source.\<close>

datatype ident = IntId int | StrId string

type_synonym vec = "real list"

text \<open>
  \<open>AssertionError\<close> carries the message of the failed \<open>assert\<close>. \<open>VectorNotFoundError\<close>
  is the error the specification names for a text without a vector. \<open>ExternalError\<close>
  stands for any exception raised inside a collaborator.
\<close>

datatype error = AssertionError string | VectorNotFoundError | ExternalError string

subsection \<open>The vocabulary and the document\<close>

text \<open>
  \<open>store\<close> is \<open>vocab.store.__getitem__\<close>, a parameter: it resolves a hash key to its
  string or raises. \<open>vectors\<close> is the table behind \<open>vocab.vectors\<close>.
\<close>

record Vocab =
  store :: "int \<Rightarrow> error + string"
  vectors :: "string \<rightharpoonup> vec"

record Doc =
  vocab :: Vocab

text \<open>
  Modelled from the spec: \<open>Vectors.has_vector\<close> and \<open>Vectors.__getitem__\<close>
  (syfertext/vectors.py is not among the sources). The VectorTable "maps a token's text
  to a numeric vector and reports whether a vector exists for a given text"; its lookup
  is \<open>vector_for(text) -> numeric vector | absent\<close>, and the accessor built on it "fails
  with VectorNotFoundError" when there is none.
\<close>

definition Vectors_has_vector :: "(string \<rightharpoonup> vec) \<Rightarrow> string \<Rightarrow> bool" where
  "Vectors_has_vector V word = (case V word of None \<Rightarrow> False | Some v \<Rightarrow> True)"

definition Vectors_getitem :: "(string \<rightharpoonup> vec) \<Rightarrow> string \<Rightarrow> error + vec" where
  "Vectors_getitem V word = (case V word of None \<Rightarrow> Inl VectorNotFoundError | Some v \<Rightarrow> Inr v)"

subsection \<open>Token metadata and the token\<close>

text \<open>
  The fields of \<open>TokenMeta\<close> that \<open>Token.__init__\<close> reads. The attribute \<open>_\<close> is the
  Underscore object: a bag of named custom attributes with values of any type \<open>'a\<close>.
\<close>

record 'a TokenMeta =
  m_orth :: int
  m_start_pos :: int
  m_end_pos :: "int option"
  m_is_space :: bool
  m_space_after :: bool
  m_underscore :: "string \<rightharpoonup> 'a"

text \<open>
  The attributes of a token. \<open>tok_id\<close> and \<open>tok_owner\<close> are the \<open>id\<close> and \<open>owner\<close> that
  \<open>AbstractObject.__init__\<close> sets; \<open>underscore\<close> is the attribute \<open>_\<close>. The document is
  held as the token reads it.
\<close>

record 'a Token =
  tok_id :: ident
  tok_owner :: worker
  doc :: Doc
  orth :: int
  start_pos :: int
  stop_pos :: "int option"
  is_space :: bool
  space_after :: bool
  underscore :: "string \<rightharpoonup> 'a"
  has_vector :: bool

text \<open>The property \<open>text\<close>: \<open>str(self.doc.vocab.store[self.orth])\<close>.\<close>

definition token_text :: "'a Token \<Rightarrow> error + string" where
  "token_text self = store (vocab (doc self)) (orth self)"

text \<open>
  \<open>Token.__init__\<close>. Its first argument is the constructor of syft's \<open>AbstractObject\<close>,
  which fixes the identifier and the owner of the object from the two optional
  arguments. The last statement reads \<open>self.text\<close>, so the constructor raises when the
  store cannot resolve \<open>orth\<close>; \<open>has_vector\<close> has no value before that statement, and
  the \<open>False\<close> written here until then is never read.
\<close>

definition Token_init ::
  "(ident option \<Rightarrow> worker option \<Rightarrow> ident \<times> worker) \<Rightarrow> Doc \<Rightarrow> 'a TokenMeta \<Rightarrow>
   ident option \<Rightarrow> worker option \<Rightarrow> error + 'a Token" where
  "Token_init AbstractObject_init doc0 token_meta id0 owner0 =
     (let (i, w) = AbstractObject_init id0 owner0;
          self = \<lparr> tok_id = i, tok_owner = w, doc = doc0,
                   orth = m_orth token_meta,
                   start_pos = m_start_pos token_meta,
                   stop_pos = (case m_end_pos token_meta of
                                 Some e \<Rightarrow> Some (e + 1)
                               | None \<Rightarrow> None),
                   is_space = m_is_space token_meta,
                   space_after = m_space_after token_meta,
                   underscore = m_underscore token_meta,
                   has_vector = False \<rparr>
      in case token_text self of
           Inl e \<Rightarrow> Inl e
         | Inr t \<Rightarrow> Inr (self \<lparr> has_vector := Vectors_has_vector (vectors (vocab (doc self))) t \<rparr>))"

text \<open>\<open>__str__\<close> returns \<open>self.text\<close>.\<close>

definition token_str :: "'a Token \<Rightarrow> error + string" where
  "token_str self = token_text self"

text \<open>\<open>set_attribute\<close>: \<open>setattr(self._, name, value)\<close>.\<close>

definition set_attribute :: "'a Token \<Rightarrow> string \<Rightarrow> 'a \<Rightarrow> 'a Token" where
  "set_attribute self name val = self \<lparr> underscore := (underscore self)(name \<mapsto> val) \<rparr>"

text \<open>\<open>text_\<close> wraps the same string in syft's \<open>String\<close>.\<close>

definition token_text_String :: "'a Token \<Rightarrow> error + string" where
  "token_text_String self = store (vocab (doc self)) (orth self)"

text \<open>\<open>__len__\<close>: \<open>len(self.text)\<close>.\<close>

definition len :: "'a Token \<Rightarrow> error + nat" where
  "len self = (case token_text self of Inl e \<Rightarrow> Inl e | Inr t \<Rightarrow> Inr (length t))"

text \<open>The property \<open>text_with_ws\<close>.\<close>

definition text_with_ws :: "'a Token \<Rightarrow> error + string" where
  "text_with_ws self =
     (if space_after self
      then (case token_text self of Inl e \<Rightarrow> Inl e | Inr t \<Rightarrow> Inr (t @ '' ''))
      else token_text self)"

text \<open>\<open>__repr__\<close>: \<open>"Token[{}]".format(self.text)\<close>.\<close>

definition token_repr :: "'a Token \<Rightarrow> error + string" where
  "token_repr self =
     (case token_text self of Inl e \<Rightarrow> Inl e | Inr t \<Rightarrow> Inr (''Token['' @ t @ '']''))"

text \<open>The property \<open>vector\<close>: \<open>self.doc.vocab.vectors[self.text]\<close>.\<close>

definition vector :: "'a Token \<Rightarrow> error + vec" where
  "vector self =
     (case token_text self of
        Inl e \<Rightarrow> Inl e
      | Inr t \<Rightarrow> Vectors_getitem (vectors (vocab (doc self))) t)"

subsection \<open>Encrypting the vector\<close>

text \<open>
  The tensor backend (torch and syft) is a parameter. Each of its three operations may
  raise and may change the state \<open>'w\<close> of the workers, which holds their object
  registries and whatever has been sent over the network. An exception keeps the
  changes made before it.
\<close>

record ('t, 'w) backend =
  torch_Tensor :: "vec \<Rightarrow> 'w \<Rightarrow> (error + 't) \<times> 'w"
  fix_precision :: "'t \<Rightarrow> 'w \<Rightarrow> (error + 't) \<times> 'w"
  share :: "'t \<Rightarrow> worker list \<Rightarrow> worker option \<Rightarrow> bool \<Rightarrow> 'w \<Rightarrow> (error + 't) \<times> 'w"

definition get_encrypted_vector ::
  "('t, 'w) backend \<Rightarrow> 'a Token \<Rightarrow> worker list \<Rightarrow> worker option \<Rightarrow> bool \<Rightarrow> 'w \<Rightarrow>
   (error + 't) \<times> 'w" where
  "get_encrypted_vector B self workers crypto_provider requires_grad w =
     (if \<not> length workers > 1
      then (Inl (AssertionError
              ''You need at least two workers in order to encrypt the vector with SMPC''), w)
      else
        case token_text self of
          Inl e \<Rightarrow> (Inl e, w)
        | Inr t \<Rightarrow>
           (case Vectors_getitem (vectors (vocab (doc self))) t of
              Inl e \<Rightarrow> (Inl e, w)
            | Inr v \<Rightarrow>
               (case torch_Tensor B v w of
                  (Inl e, w1) \<Rightarrow> (Inl e, w1)
                | (Inr x, w1) \<Rightarrow>
                   (case fix_precision B x w1 of
                      (Inl e, w2) \<Rightarrow> (Inl e, w2)
                    | (Inr y, w2) \<Rightarrow> share B y workers crypto_provider requires_grad w2))))"

subsection \<open>Pointers\<close>

text \<open>
  Modelled from the spec: the class \<open>TokenPointer\<close> and its constructor
  (syfertext/pointers/token_pointer.py is not among the sources). A RemotePointer has
  the fields \<open>target_worker\<close>, \<open>remote_object_id\<close>, \<open>owner_worker\<close>, \<open>pointer_id\<close> and
  \<open>garbage_collect_on_drop\<close>, and creating one "registers nothing by itself": the
  constructor returns the state of the workers as it received it.
\<close>

record TokenPointer =
  ptr_location :: "worker option"
  ptr_id_at_location :: ident
  ptr_owner :: worker
  ptr_id :: "ident option"
  ptr_garbage_collect_data :: bool

definition TokenPointer_init ::
  "worker option \<Rightarrow> ident \<Rightarrow> worker \<Rightarrow> ident option \<Rightarrow> bool \<Rightarrow> 'w \<Rightarrow> TokenPointer \<times> 'w" where
  "TokenPointer_init location0 id_at_location0 owner0 id0 garbage_collect_data0 w =
     (\<lparr> ptr_location = location0, ptr_id_at_location = id_at_location0,
         ptr_owner = owner0, ptr_id = id0,
         ptr_garbage_collect_data = garbage_collect_data0 \<rparr>, w)"

text \<open>The static method \<open>create_pointer\<close>. The argument \<open>register\<close> is never read.\<close>

definition create_pointer ::
  "'a Token \<Rightarrow> worker option \<Rightarrow> ident option \<Rightarrow> bool \<Rightarrow> worker option \<Rightarrow> ident option \<Rightarrow>
   bool \<Rightarrow> 'w \<Rightarrow> TokenPointer \<times> 'w" where
  "create_pointer token location0 id_at_location0 register owner0 ptr_id0
     garbage_collect_data0 w =
     (let id_at_location1 = (case id_at_location0 of None \<Rightarrow> tok_id token | Some i \<Rightarrow> i);
          owner1 = (case owner0 of None \<Rightarrow> tok_owner token | Some x \<Rightarrow> x)
      in TokenPointer_init location0 id_at_location1 owner1 ptr_id0 garbage_collect_data0 w)"

text \<open>
  The steps of the specification's SecureVectorAggregator that follow its check of the
  participants, on a plaintext vector: ENCODING (a tensor in fixed precision), then
  SHARING. This is the specification's side of the comparison with
  \<open>get_encrypted_vector\<close>.
\<close>

definition encode_and_share ::
  "('t, 'w) backend \<Rightarrow> vec \<Rightarrow> worker list \<Rightarrow> worker option \<Rightarrow> bool \<Rightarrow> 'w \<Rightarrow>
   (error + 't) \<times> 'w" where
  "encode_and_share B v participants coordinator gradient_compatible w =
     (case torch_Tensor B v w of
        (Inl e, w1) \<Rightarrow> (Inl e, w1)
      | (Inr x, w1) \<Rightarrow>
         (case fix_precision B x w1 of
            (Inl e, w2) \<Rightarrow> (Inl e, w2)
          | (Inr y, w2) \<Rightarrow> share B y participants coordinator gradient_compatible w2))"

subsection \<open>The span of a token in the text of its document\<close>

text \<open>
  Modelled from the spec: the text buffer of the document (the class \<open>Doc\<close> is not among
  the sources). \<open>start_pos\<close> and \<open>stop_pos\<close> are a "half-open character range
  [start_pos, stop_pos) into the document's text buffer"; the text between two positions
  exists when they are such a range.
\<close>

definition span_text :: "string \<Rightarrow> int \<Rightarrow> int \<Rightarrow> string option" where
  "span_text buf s e =
     (if 0 \<le> s \<and> s \<le> e \<and> e \<le> int (length buf)
      then Some (take (nat (e - s)) (drop (nat s) buf))
      else None)"

subsection \<open>Calls on a token\<close>

text \<open>
  Every method and property of the class as a call on a token, with the value or
  exception of the call, the token the call leaves behind and the state of the workers.
  \<open>set_attribute\<close> is the one body that assigns to something reachable from \<open>self\<close>;
  the other bodies read \<open>self\<close> and pass none of it on by reference.
\<close>

datatype 'a call =
    Call_str
  | Call_set_attribute string 'a
  | Get_text
  | Call_text_String
  | Call_len
  | Get_text_with_ws
  | Call_repr
  | Get_vector
  | Call_get_encrypted_vector "worker list" "worker option" bool
  | Call_create_pointer "worker option" "ident option" bool "worker option" "ident option" bool

datatype 't pyval =
    PNone
  | PStr string
  | PInt nat
  | PVec vec
  | PTensor 't
  | PPointer TokenPointer

fun is_set_attribute :: "'a call \<Rightarrow> bool" where
  "is_set_attribute (Call_set_attribute name val) = True"
| "is_set_attribute c = False"

definition returning :: "('b \<Rightarrow> 't pyval) \<Rightarrow> error + 'b \<Rightarrow> error + 't pyval" where
  "returning f r = (case r of Inl e \<Rightarrow> Inl e | Inr x \<Rightarrow> Inr (f x))"

fun call_method ::
  "('t, 'w) backend \<Rightarrow> 'a call \<Rightarrow> 'a Token \<Rightarrow> 'w \<Rightarrow> (error + 't pyval) \<times> 'a Token \<times> 'w" where
  "call_method B Call_str self w = (returning PStr (token_str self), self, w)"
| "call_method B (Call_set_attribute name val) self w =
     (Inr PNone, set_attribute self name val, w)"
| "call_method B Get_text self w = (returning PStr (token_text self), self, w)"
| "call_method B Call_text_String self w = (returning PStr (token_text_String self), self, w)"
| "call_method B Call_len self w = (returning PInt (len self), self, w)"
| "call_method B Get_text_with_ws self w = (returning PStr (text_with_ws self), self, w)"
| "call_method B Call_repr self w = (returning PStr (token_repr self), self, w)"
| "call_method B Get_vector self w = (returning PVec (vector self), self, w)"
| "call_method B (Call_get_encrypted_vector workers crypto_provider requires_grad) self w =
     (case get_encrypted_vector B self workers crypto_provider requires_grad w of
        (r, w1) \<Rightarrow> (returning PTensor r, self, w1))"
| "call_method B (Call_create_pointer location0 id_at_location0 register owner0 ptr_id0
       garbage_collect_data0) self w =
     (case create_pointer self location0 id_at_location0 register owner0 ptr_id0
             garbage_collect_data0 w of
        (p, w1) \<Rightarrow> (Inr (PPointer p), self, w1))"

subsection \<open>A document for evaluating the definitions\<close>

text \<open>
  A vocabulary with the strings \<open>Alice\<close> (with a vector of four components) and a
  single blank (without a vector), a constructor of objects that supplies the identifier
  1 and the owner \<open>me\<close> when none is given, and a backend that scales by 1000 and logs
  the workers a share goes to.
\<close>

definition ex_vocab :: Vocab where
  "ex_vocab =
     \<lparr> store = (\<lambda>k. if k = 7 then Inr ''Alice''
                     else if k = 8 then Inr '' ''
                     else Inl (ExternalError ''KeyError'')),
       vectors = [''Alice'' \<mapsto> [1, 2, 3, 4]] \<rparr>"

definition ex_doc :: Doc where
  "ex_doc = \<lparr> vocab = ex_vocab \<rparr>"

definition ex_object_init :: "ident option \<Rightarrow> worker option \<Rightarrow> ident \<times> worker" where
  "ex_object_init i x =
     (case i of None \<Rightarrow> IntId 1 | Some j \<Rightarrow> j, case x of None \<Rightarrow> ''me'' | Some y \<Rightarrow> y)"

definition ex_meta :: "int TokenMeta" where
  "ex_meta =
     \<lparr> m_orth = 7, m_start_pos = 0, m_end_pos = Some 4, m_is_space = False,
       m_space_after = True, m_underscore = Map.empty \<rparr>"

definition ex_token :: "int Token" where
  "ex_token =
     \<lparr> tok_id = IntId 1, tok_owner = ''me'', doc = ex_doc, orth = 7, start_pos = 0,
       stop_pos = Some 5, is_space = False, space_after = True, underscore = Map.empty,
       has_vector = True \<rparr>"

definition ex_meta_space :: "int TokenMeta" where
  "ex_meta_space =
     \<lparr> m_orth = 8, m_start_pos = 5, m_end_pos = None, m_is_space = True,
       m_space_after = False, m_underscore = Map.empty \<rparr>"

definition ex_token_space :: "int Token" where
  "ex_token_space =
     \<lparr> tok_id = IntId 1, tok_owner = ''me'', doc = ex_doc, orth = 8, start_pos = 5,
       stop_pos = None, is_space = True, space_after = False, underscore = Map.empty,
       has_vector = False \<rparr>"

definition ex_backend :: "(vec, worker list) backend" where
  "ex_backend =
     \<lparr> torch_Tensor = (\<lambda>v w. (Inr v, w)),
       fix_precision = (\<lambda>x w. (Inr (map (\<lambda>r. r * 1000) x), w)),
       share = (\<lambda>y workers crypto_provider requires_grad w. (Inr y, w @ workers)) \<rparr>"

section \<open>Properties\<close>

subsection \<open>The example document evaluated\<close>


lemma ex_token_init: "Token_init ex_object_init ex_doc ex_meta None None = Inr ex_token"
  by (simp add: Token_init_def ex_object_init_def ex_doc_def ex_meta_def ex_token_def
      ex_vocab_def token_text_def Vectors_has_vector_def)

lemma ex_token_space_init:
  "Token_init ex_object_init ex_doc ex_meta_space None None = Inr ex_token_space"
  by (simp add: Token_init_def ex_object_init_def ex_doc_def ex_meta_space_def
      ex_token_space_def ex_vocab_def token_text_def Vectors_has_vector_def)

lemma ex_token_text: "token_text ex_token = Inr ''Alice''"
  by (simp add: token_text_def ex_token_def ex_doc_def ex_vocab_def)

lemma ex_token_space_text: "token_text ex_token_space = Inr '' ''"
  by (simp add: token_text_def ex_token_space_def ex_doc_def ex_vocab_def)

lemma ex_token_vector: "vector ex_token = Inr [1, 2, 3, 4]"
  by (simp add: vector_def ex_token_text Vectors_getitem_def)
     (simp add: ex_token_def ex_doc_def ex_vocab_def)

text \<open>
  C1. With fewer than two workers \<open>get_encrypted_vector\<close> fails on its assertion, the
  error the specification calls InsufficientPartiesError, whatever the token, the
  backend and the other arguments are. The state of the workers comes back as it went
  in: the vector is not looked up, nothing is encoded and no share is sent, since the
  check of the number of workers is the first step.
\<close>

theorem get_encrypted_vector_insufficient:
  "length workers < 2 \<Longrightarrow>
   get_encrypted_vector B self workers crypto_provider requires_grad w =
     (Inl (AssertionError
        ''You need at least two workers in order to encrypt the vector with SMPC''), w)"
  by (simp add: get_encrypted_vector_def)

theorem get_encrypted_vector_insufficient_witness:
  "length [''alice''] < 2 \<and>
   get_encrypted_vector ex_backend ex_token [''alice''] (Some ''carol'') True [] =
     (Inl (AssertionError
        ''You need at least two workers in order to encrypt the vector with SMPC''), []) \<and>
   get_encrypted_vector ex_backend ex_token_space [] None False [''bob''] =
     (Inl (AssertionError
        ''You need at least two workers in order to encrypt the vector with SMPC''), [''bob''])"
  using get_encrypted_vector_insufficient
     [of "[''alice'']" ex_backend ex_token "Some ''carol''" True "[]"]
    get_encrypted_vector_insufficient
     [of "[]" ex_backend ex_token_space None False "[''bob'']"]
  by simp

lemma Token_init_Inr:
  assumes "Token_init A d m i x = Inr tok"
  shows "\<exists>t. store (vocab d) (m_orth m) = Inr t \<and>
     tok = \<lparr> tok_id = fst (A i x), tok_owner = snd (A i x), doc = d,
             orth = m_orth m, start_pos = m_start_pos m,
             stop_pos = (case m_end_pos m of Some e \<Rightarrow> Some (e + 1) | None \<Rightarrow> None),
             is_space = m_is_space m, space_after = m_space_after m,
             underscore = m_underscore m,
             has_vector = Vectors_has_vector (vectors (vocab d)) t \<rparr>"
  using assms
  by (auto simp add: Token_init_def token_text_def Let_def split: prod.splits sum.splits)

text \<open>
  C2. For a token built by \<open>Token.__init__\<close>: when its cached \<open>has_vector\<close> is false, the
  property \<open>vector\<close> fails with VectorNotFoundError; when it is true, \<open>vector\<close> returns the
  vector that the table of the document holds for the text of the token.
\<close>

theorem vector_of_constructed_token:
  assumes "Token_init A d m i x = Inr tok"
  shows "(\<not> has_vector tok \<longrightarrow> vector tok = Inl VectorNotFoundError) \<and>
         (has_vector tok \<longrightarrow>
            (\<exists>t v. token_text tok = Inr t \<and> vectors (vocab (doc tok)) t = Some v \<and>
                   vector tok = Inr v))"
proof -
  from Token_init_Inr [OF assms] obtain t where
    t: "store (vocab d) (m_orth m) = Inr t" and
    d: "doc tok = d" and k: "orth tok = m_orth m" and
    h: "has_vector tok = Vectors_has_vector (vectors (vocab d)) t"
    by auto
  have tt: "token_text tok = Inr t"
    by (simp add: token_text_def d k t)
  show ?thesis
    by (cases "vectors (vocab d) t")
       (simp_all add: vector_def tt h d Vectors_has_vector_def Vectors_getitem_def)
qed

theorem vector_of_constructed_token_witness:
  "Token_init ex_object_init ex_doc ex_meta None None = Inr ex_token \<and>
   has_vector ex_token \<and> vector ex_token = Inr [1, 2, 3, 4] \<and>
   Token_init ex_object_init ex_doc ex_meta_space None None = Inr ex_token_space \<and>
   \<not> has_vector ex_token_space \<and> vector ex_token_space = Inl VectorNotFoundError"
  using vector_of_constructed_token [OF ex_token_init]
    vector_of_constructed_token [OF ex_token_space_init]
  by (simp add: ex_token_init ex_token_space_init ex_token_vector)
     (simp add: ex_token_def ex_token_space_def)

text \<open>
  C3. For a token built by \<open>Token.__init__\<close> from token metadata: \<open>stop_pos\<close> is the end
  position of the metadata plus one when that position is defined, \<open>stop_pos\<close> is
  undefined when it is not, and \<open>start_pos\<close> is the start position of the metadata.
\<close>

theorem Token_init_positions:
  assumes "Token_init A d m i x = Inr tok"
  shows "(\<forall>e. m_end_pos m = Some e \<longrightarrow> stop_pos tok = Some (e + 1)) \<and>
         (m_end_pos m = None \<longrightarrow> stop_pos tok = None) \<and>
         start_pos tok = m_start_pos m"
  using Token_init_Inr [OF assms] by auto

theorem Token_init_positions_witness:
  "Token_init ex_object_init ex_doc ex_meta None None = Inr ex_token \<and>
   m_end_pos ex_meta = Some 4 \<and> stop_pos ex_token = Some 5 \<and>
   start_pos ex_token = m_start_pos ex_meta \<and>
   Token_init ex_object_init ex_doc ex_meta_space None None = Inr ex_token_space \<and>
   m_end_pos ex_meta_space = None \<and> stop_pos ex_token_space = None"
proof -
  have e1: "m_end_pos ex_meta = Some 4" and e2: "m_end_pos ex_meta_space = None"
    by (simp_all add: ex_meta_def ex_meta_space_def)
  from Token_init_positions [OF ex_token_init] e1
  have p1: "stop_pos ex_token = Some 5 \<and> start_pos ex_token = m_start_pos ex_meta"
    by simp
  from Token_init_positions [OF ex_token_space_init] e2
  have p2: "stop_pos ex_token_space = None"
    by simp
  show ?thesis
    using ex_token_init ex_token_space_init e1 e2 p1 p2 by simp
qed

text \<open>
  C4. For all arguments, \<open>create_pointer\<close> returns the state of the workers (their object
  registries and everything else) as it received it, and the argument \<open>register\<close> makes
  no difference to what it returns: with \<open>register = True\<close> it registers nothing either.
\<close>

theorem create_pointer_registers_nothing:
  "snd (create_pointer token location0 id_at_location0 register owner0 ptr_id0
          garbage_collect_data0 w) = w \<and>
   create_pointer token location0 id_at_location0 True owner0 ptr_id0
          garbage_collect_data0 w =
   create_pointer token location0 id_at_location0 False owner0 ptr_id0
          garbage_collect_data0 w"
  by (simp add: create_pointer_def TokenPointer_init_def Let_def)

text \<open>
  C5. \<open>create_pointer\<close> without \<open>id_at_location\<close> returns a pointer whose
  \<open>id_at_location\<close> is the identifier of the token, and without \<open>owner\<close> a pointer whose
  owner is the owner of the token; an argument that is given is used as it is.
\<close>

theorem create_pointer_defaults:
  "ptr_id_at_location (fst (create_pointer token l None r x p g w)) = tok_id token \<and>
   ptr_id_at_location (fst (create_pointer token l (Some i) r x p g w)) = i \<and>
   ptr_owner (fst (create_pointer token l j r None p g w)) = tok_owner token \<and>
   ptr_owner (fst (create_pointer token l j r (Some y) p g w)) = y"
  by (simp add: create_pointer_def TokenPointer_init_def Let_def)

text \<open>
  C6. When the text of the token resolves to \<open>t\<close>, \<open>text_with_ws\<close> is \<open>t\<close> followed by one
  blank exactly when \<open>space_after\<close> is true, and is \<open>t\<close> itself exactly when it is false;
  when the text does not resolve, \<open>text_with_ws\<close> fails as \<open>text\<close> does. In particular a
  token with \<open>is_space\<close> true and \<open>space_after\<close> false has \<open>text_with_ws\<close> equal to
  \<open>text\<close>.
\<close>

theorem text_with_ws_space_after:
  "(\<forall>t. token_text self = Inr t \<longrightarrow>
      (text_with_ws self = Inr (t @ '' '')) = space_after self \<and>
      (text_with_ws self = Inr t) = (\<not> space_after self)) \<and>
   (\<forall>e. token_text self = Inl e \<longrightarrow> text_with_ws self = Inl e) \<and>
   (is_space self \<and> \<not> space_after self \<longrightarrow> text_with_ws self = token_text self)"
  by (auto simp add: text_with_ws_def)

theorem text_with_ws_space_after_witness:
  "token_text ex_token = Inr ''Alice'' \<and> space_after ex_token \<and>
   text_with_ws ex_token = Inr ''Alice '' \<and>
   token_text ex_token_space = Inr '' '' \<and> is_space ex_token_space \<and>
   \<not> space_after ex_token_space \<and> text_with_ws ex_token_space = Inr '' '' \<and>
   token_text (ex_token \<lparr> orth := 9 \<rparr>) = Inl (ExternalError ''KeyError'') \<and>
   text_with_ws (ex_token \<lparr> orth := 9 \<rparr>) = Inl (ExternalError ''KeyError'')"
proof -
  have u: "token_text (ex_token \<lparr> orth := 9 \<rparr>) = Inl (ExternalError ''KeyError'')"
    by (simp add: token_text_def ex_token_def ex_doc_def ex_vocab_def)
  have f: "space_after ex_token" "is_space ex_token_space" "\<not> space_after ex_token_space"
    by (simp_all add: ex_token_def ex_token_space_def)
  show ?thesis
    using text_with_ws_space_after [of ex_token] text_with_ws_space_after [of ex_token_space]
      text_with_ws_space_after [of "ex_token \<lparr> orth := 9 \<rparr>"]
    by (simp add: ex_token_text ex_token_space_text u f)
qed

text \<open>
  C7. After \<open>set_attribute(name, v1)\<close> and then \<open>set_attribute(name, v2)\<close> the attribute
  \<open>name\<close> of the bag is \<open>v2\<close>, whatever the bag held before.
\<close>

theorem set_attribute_last_write_wins:
  "underscore (set_attribute (set_attribute self name v1) name v2) name = Some v2"
  by (simp add: set_attribute_def)


lemma foldl_set_attribute_fields:
  "tok_id (foldl (\<lambda>s (name, val). set_attribute s name val) self nvs) = tok_id self \<and>
   tok_owner (foldl (\<lambda>s (name, val). set_attribute s name val) self nvs) = tok_owner self \<and>
   doc (foldl (\<lambda>s (name, val). set_attribute s name val) self nvs) = doc self \<and>
   orth (foldl (\<lambda>s (name, val). set_attribute s name val) self nvs) = orth self \<and>
   start_pos (foldl (\<lambda>s (name, val). set_attribute s name val) self nvs) = start_pos self \<and>
   stop_pos (foldl (\<lambda>s (name, val). set_attribute s name val) self nvs) = stop_pos self \<and>
   is_space (foldl (\<lambda>s (name, val). set_attribute s name val) self nvs) = is_space self \<and>
   space_after (foldl (\<lambda>s (name, val). set_attribute s name val) self nvs) = space_after self \<and>
   has_vector (foldl (\<lambda>s (name, val). set_attribute s name val) self nvs) = has_vector self"
proof (induction nvs arbitrary: self)
  case Nil
  show ?case by simp
next
  case (Cons p nvs)
  obtain name val where p: "p = (name, val)" by (cases p)
  show ?case
    using Cons.IH [of "set_attribute self name val"]
    by (simp add: p set_attribute_def)
qed

lemma call_method_keeps_token:
  "\<not> is_set_attribute c \<Longrightarrow> fst (snd (call_method B c self w)) = self"
  by (cases c) (simp_all split: prod.splits)

text \<open>
  C8. Any sequence of \<open>set_attribute\<close> calls leaves the document, \<open>orth\<close>, \<open>start_pos\<close>,
  \<open>stop_pos\<close>, \<open>is_space\<close>, \<open>space_after\<close> and \<open>has_vector\<close> of the token as they were,
  and a call of any other method or property leaves the whole token as it was.
\<close>

theorem set_attribute_frame:
  "(let self' = foldl (\<lambda>s (name, val). set_attribute s name val) self nvs
    in doc self' = doc self \<and> orth self' = orth self \<and>
       start_pos self' = start_pos self \<and> stop_pos self' = stop_pos self \<and>
       is_space self' = is_space self \<and> space_after self' = space_after self \<and>
       has_vector self' = has_vector self) \<and>
   (\<not> is_set_attribute c \<longrightarrow> fst (snd (call_method B c self w)) = self)"
  using foldl_set_attribute_fields [of self nvs] call_method_keeps_token [of c B self w]
  by (simp add: Let_def)

theorem set_attribute_frame_witness:
  "has_vector (foldl (\<lambda>s (name, val). set_attribute s name val) ex_token
      [(''lemma'', 1), (''tag'', 2), (''lemma'', 3)]) = has_vector ex_token \<and>
   \<not> is_set_attribute (Call_get_encrypted_vector [''alice'', ''bob''] None True) \<and>
   fst (snd (call_method ex_backend
      (Call_get_encrypted_vector [''alice'', ''bob''] None True) ex_token [])) = ex_token"
  using set_attribute_frame [of ex_token "[(''lemma'', 1), (''tag'', 2), (''lemma'', 3)]"
      "Call_get_encrypted_vector [''alice'', ''bob''] None True" ex_backend "[]"]
  by (simp add: Let_def)

text \<open>
  C9. When \<open>stop_pos\<close> is defined and the text of the document in the range from
  \<open>start_pos\<close> to \<open>stop_pos\<close> is the string that the store resolves for the token, the
  length of the token is \<open>stop_pos - start_pos\<close>. The text buffer of the document is
  any string \<open>buf\<close>.
\<close>

theorem span_length:
  assumes "stop_pos self = Some e"
    and "token_text self = Inr t"
    and "span_text buf (start_pos self) e = Some t"
  shows "len self = Inr (length t) \<and> e - start_pos self = int (length t)"
proof -
  from assms(3) have r: "0 \<le> start_pos self" "start_pos self \<le> e" "e \<le> int (length buf)"
    and t: "t = take (nat (e - start_pos self)) (drop (nat (start_pos self)) buf)"
    by (auto simp add: span_text_def split: if_splits)
  from r have "nat (e - start_pos self) \<le> length buf - nat (start_pos self)"
    by linarith
  then have "length t = nat (e - start_pos self)"
    by (simp add: t)
  with r have "e - start_pos self = int (length t)"
    by simp
  moreover have "len self = Inr (length t)"
    by (simp add: len_def assms(2))
  ultimately show ?thesis by simp
qed

theorem span_length_witness:
  "stop_pos ex_token = Some 5 \<and> token_text ex_token = Inr ''Alice'' \<and>
   span_text ''Alice went'' (start_pos ex_token) 5 = Some ''Alice'' \<and>
   len ex_token = Inr 5 \<and> 5 - start_pos ex_token = 5"
proof -
  have a: "stop_pos ex_token = Some 5" and s: "start_pos ex_token = 0"
    by (simp_all add: ex_token_def)
  have b: "span_text ''Alice went'' (start_pos ex_token) 5 = Some ''Alice''"
    by (simp add: s span_text_def)
  from span_length [OF a ex_token_text b] show ?thesis
    using a b ex_token_text by simp
qed

text \<open>
  C10. With at least two workers, \<open>get_encrypted_vector\<close> encodes and shares exactly the
  value of the property \<open>vector\<close>: it fails with the error of \<open>vector\<close>, leaving the state
  of the workers untouched, when \<open>vector\<close> fails, and it runs the backend on the vector
  that \<open>vector\<close> returns otherwise.
\<close>

theorem get_encrypted_vector_uses_vector:
  assumes "1 < length workers"
  shows "get_encrypted_vector B self workers crypto_provider requires_grad w =
     (case vector self of
        Inl e \<Rightarrow> (Inl e, w)
      | Inr v \<Rightarrow> encode_and_share B v workers crypto_provider requires_grad w)"
  using assms
  by (simp add: get_encrypted_vector_def vector_def encode_and_share_def split: sum.splits)

lemma ex_token_space_vector: "vector ex_token_space = Inl VectorNotFoundError"
  by (simp add: vector_def ex_token_space_text Vectors_getitem_def)
     (simp add: ex_token_space_def ex_doc_def ex_vocab_def)

lemma ex_encode_and_share:
  "encode_and_share ex_backend [1, 2, 3, 4] [''alice'', ''bob''] (Some ''carol'') True [] =
     (Inr [1000, 2000, 3000, 4000], [''alice'', ''bob''])"
  by (simp add: encode_and_share_def ex_backend_def)

theorem get_encrypted_vector_uses_vector_witness:
  "1 < length [''alice'', ''bob''] \<and>
   vector ex_token = Inr [1, 2, 3, 4] \<and>
   get_encrypted_vector ex_backend ex_token [''alice'', ''bob''] (Some ''carol'') True [] =
     (Inr [1000, 2000, 3000, 4000], [''alice'', ''bob'']) \<and>
   vector ex_token_space = Inl VectorNotFoundError \<and>
   get_encrypted_vector ex_backend ex_token_space [''alice'', ''bob''] (Some ''carol'') True [] =
     (Inl VectorNotFoundError, [])"
proof -
  have n: "1 < length [''alice'', ''bob'']" by simp
  show ?thesis
    using get_encrypted_vector_uses_vector
        [OF n, of ex_backend ex_token "Some ''carol''" True "[]"]
      get_encrypted_vector_uses_vector
        [OF n, of ex_backend ex_token_space "Some ''carol''" True "[]"]
    by (simp add: ex_token_vector ex_token_space_vector ex_encode_and_share)
qed

end
